theory Spec2Isabelle
  imports Main "HOL-Library.AList"
begin

section \<open>Resource paths (resourcepath.ts)\<close>

text \<open>
  A resource path is a chain of nodes. The \<open>parent\<close> field of a node is \<open>null\<close>
  (the node is the first segment of an absolute path), \<open>undefined\<close> (the node is the
  first segment of a relative path) or another node. The three shapes a value of type
  \<open>ResourcePath | null | undefined\<close> can have are the three constructors below. The
  fields \<open>absolute\<close> and \<open>relative\<close> are optional in the interface, so an object
  that was not made by the factory may leave them \<open>undefined\<close>: \<open>None\<close> here. The
  \<open>resolve\<close> member only calls \<open>resolvePath(this, path)\<close> and is not stored.
\<close>

datatype path =
    PNull
  | PUndefined
  | PNode (name: string) (parent: path) (absolute: "bool option") (relative: "bool option")

text \<open>
  The exceptions and rejection reasons of the program, by their class. The path functions
  end with a \<open>SyntaxError\<close> they throw themselves or with the \<open>TypeError\<close> of the
  runtime when a property of \<open>null\<close> or \<open>undefined\<close> is read. A store rejects with
  a \<open>RangeError\<close> for a missing key. The message is kept for a plain \<open>Error\<close> only.
\<close>

datatype error = SyntaxError | TypeError | RangeError | Error string

text \<open>\<open>cursor != null\<close> holds for a node only: it is false for \<open>null\<close> and for
  \<open>undefined\<close>.\<close>

fun nullish :: "path \<Rightarrow> bool" where
  "nullish PNull = True"
| "nullish PUndefined = True"
| "nullish (PNode n p a r) = False"

text \<open>
  The loop of \<open>isAbsolute\<close>:
  \<^verbatim>\<open>while (cursor != null && cursor.absolute != null) { cursor = cursor.parent; }\<close>
  It returns the cursor at which the loop stops.
\<close>

fun isAbsolute_loop :: "path \<Rightarrow> path" where
  "isAbsolute_loop (PNode n p (Some a) r) = isAbsolute_loop p"
| "isAbsolute_loop cursor = cursor"

text \<open>
  \<^verbatim>\<open>return cursor.absolute != null ? cursor.absolute : cursor === null;\<close>
  Reading \<open>cursor.absolute\<close> throws a \<open>TypeError\<close> when the cursor is \<open>null\<close> or
  \<open>undefined\<close>. For a node, \<open>cursor === null\<close> is false.
\<close>

definition isAbsolute :: "path \<Rightarrow> error + bool" where
  "isAbsolute path =
     (case isAbsolute_loop path of
        PNull \<Rightarrow> Inl TypeError
      | PUndefined \<Rightarrow> Inl TypeError
      | PNode n p a r \<Rightarrow> (case a of Some b \<Rightarrow> Inr b | None \<Rightarrow> Inr False))"

fun isRelative_loop :: "path \<Rightarrow> path" where
  "isRelative_loop (PNode n p a (Some r)) = isRelative_loop p"
| "isRelative_loop cursor = cursor"

definition isRelative :: "path \<Rightarrow> error + bool" where
  "isRelative path =
     (case isRelative_loop path of
        PNull \<Rightarrow> Inl TypeError
      | PUndefined \<Rightarrow> Inl TypeError
      | PNode n p a r \<Rightarrow> (case r of Some b \<Rightarrow> Inr b | None \<Rightarrow> Inr False))"

text \<open>
  The object literal the factory returns:
  \<^verbatim>\<open>absolute: parent == null ? parent === null : parent.absolute,
  relative: parent == null ? parent === undefined : parent.relative\<close>
\<close>

definition new_node :: "string \<Rightarrow> path \<Rightarrow> path" where
  "new_node nm par =
     PNode nm par
       (if nullish par then Some (par = PNull) else absolute par)
       (if nullish par then Some (par = PUndefined) else relative par)"

text \<open>The factory \<open>ResourcePath(name, parent = undefined)\<close>. An omitted parent is
  \<open>PUndefined\<close>.\<close>

definition ResourcePath :: "string \<Rightarrow> path \<Rightarrow> error + path" where
  "ResourcePath nm par =
     (if nm = '''' then Inl SyntaxError
      else if nm \<in> set [''..'', ''.''] then
        (case isAbsolute par of
           Inl e \<Rightarrow> Inl e
         | Inr True \<Rightarrow> Inl SyntaxError
         | Inr False \<Rightarrow> if \<not> nullish par then Inr par else Inr (new_node nm par))
      else Inr (new_node nm par))"

text \<open>The second argument of \<open>resolvePath\<close> is a path or a string.\<close>

datatype path_arg = Str string | Chain path

text \<open>
  The first loop of \<open>resolvePath\<close> walks from the leaf to the end of the chain and puts
  each name in front of the names collected so far (\<open>unshift\<close>); it returns the names,
  root first, and the cursor the walk ends at.
\<close>

fun collect :: "path \<Rightarrow> string list \<Rightarrow> string list \<times> path" where
  "collect (PNode n p a r) pathResources = collect p (n # pathResources)"
| "collect cursor pathResources = (pathResources, cursor)"

text \<open>
  The body of \<open>pathResources.forEach\<close>, with the local variable \<open>parent\<close> passed
  along. A throw inside the callback ends the whole call.
\<close>

fun replay :: "string list \<Rightarrow> path \<Rightarrow> error + path" where
  "replay [] par = Inr par"
| "replay (segment # rest) par =
     (if segment = ''.'' then replay rest par
      else if segment = ''..'' then
        (if nullish par then Inl SyntaxError else replay rest (parent par))
      else if segment = '''' then Inl SyntaxError
      else (case ResourcePath segment par of
              Inl e \<Rightarrow> Inl e
            | Inr p \<Rightarrow> replay rest p))"

text \<open>
  \<open>resolvePath(current, path)\<close>. In the relative branch the local variable is
  initialised by \<open>let parent = cursor\<close>, where \<open>cursor\<close> is the \<open>undefined\<close> the walk
  ended at; the parameter \<open>current\<close> is not read anywhere in the function.
\<close>

definition resolvePath :: "path \<Rightarrow> path_arg \<Rightarrow> error + path" where
  "resolvePath current pth =
     (case (case pth of Str s \<Rightarrow> ResourcePath s PUndefined | Chain p \<Rightarrow> Inr p) of
        Inl e \<Rightarrow> Inl e
      | Inr childPath \<Rightarrow>
          (case collect childPath [] of
             (pathResources, cursor) \<Rightarrow>
               if cursor = PUndefined then replay pathResources cursor
               else if list_ex (\<lambda>segment. segment \<in> set [''.'', ''..'']) pathResources
                 then Inl SyntaxError
               else Inr childPath))"

text \<open>The names of a chain, root first, and the marker the chain ends at.\<close>

fun names :: "path \<Rightarrow> string list" where
  "names (PNode n p a r) = names p @ [n]"
| "names t = []"

fun terminal :: "path \<Rightarrow> path" where
  "terminal (PNode n p a r) = terminal p"
| "terminal t = t"

text \<open>
  A chain built solely from the factory with segment names other than \<open>.\<close> and
  \<open>..\<close>: every node is what \<open>ResourcePath(name, parent)\<close> returns for its own name
  and parent, and its parent is \<open>null\<close>, \<open>undefined\<close> or again such a chain.
\<close>

fun factory_built :: "path \<Rightarrow> bool" where
  "factory_built (PNode n p a r) =
     (n \<notin> set [''.'', ''..''] \<and> ResourcePath n p = Inr (PNode n p a r) \<and> factory_built p)"
| "factory_built t = True"

text \<open>
  The invariant of a chain, at every node: the name is not empty, both flags are
  booleans, \<open>absolute === !relative\<close>, \<open>absolute\<close> is true exactly when the chain ends
  at \<open>null\<close> and \<open>relative\<close> is true exactly when it ends at \<open>undefined\<close>.
\<close>

fun path_inv :: "path \<Rightarrow> bool" where
  "path_inv (PNode n p a r) =
     (n \<noteq> '''' \<and> a \<noteq> None \<and> r \<noteq> None \<and> a = map_option Not r \<and>
      (a = Some True) = (terminal p = PNull) \<and>
      (r = Some True) = (terminal p = PUndefined) \<and>
      path_inv p)"
| "path_inv t = True"


section \<open>Resources and the router (resource.ts)\<close>

text \<open>
  A promise is modelled by the outcome it settles with: \<open>Inr\<close> the value it is
  fulfilled with, \<open>Inl\<close> the reason it is rejected with. A store operation is taken to
  return a promise that settles, as the \<open>Resource\<close> interface declares; it gets the
  state of the store and returns the new one.
\<close>

type_synonym 'a promise = "error + 'a"

text \<open>What the handlers read of a request: \<open>req.params.id\<close>,
  \<open>req.headers["content-type"]\<close> (\<open>None\<close> when the header is missing), \<open>req.body\<close> and
  \<open>req.method\<close>.\<close>

record 'b request =
  req_id :: string
  req_content_type :: "string option"
  req_body :: 'b
  req_method :: string

text \<open>
  What a handler sends: \<open>res.status(n).json({message, resource})\<close>,
  \<open>res.status(n).json({message, resource, value})\<close> or \<open>res.status(n).end()\<close>.
\<close>

datatype 'b response =
    Json nat string string
  | JsonValue nat string string 'b
  | End nat

text \<open>The store operations the handlers below can invoke, with their arguments.\<close>

datatype ('v, 'c) call = UpdateCall string 'v | AdjustCall string 'c

text \<open>
  The members of a \<open>Resource\<close> the handlers below use. \<open>res_adjust\<close> is \<open>None\<close>
  when the object has no \<open>adjust\<close> member. The value \<open>adjust\<close> is fulfilled with is
  passed on as a change list by the caller, so both have the one type \<open>'c\<close>.
\<close>

record ('v, 'c, 's) resource =
  res_name :: string
  res_update :: "string \<Rightarrow> 'v \<Rightarrow> 's \<Rightarrow> unit promise \<times> 's"
  res_adjust :: "(string \<Rightarrow> 'c \<Rightarrow> 's \<Rightarrow> 'c promise \<times> 's) option"

definition sendInvalidResourceRequestMessage :: "'b request \<Rightarrow> string \<Rightarrow> string \<Rightarrow> 'b response" where
  "sendInvalidResourceRequestMessage req resourceName key =
     Json 400 ''An invalid request.'' resourceName"

definition sendUnsupportedResourceMessage :: "'b request \<Rightarrow> string \<Rightarrow> string \<Rightarrow> 'b response" where
  "sendUnsupportedResourceMessage req resourceName operation =
     Json 405 (''The '' @ resourceName @ '' does not support '' @ operation) resourceName"

definition sendResourceNotFoundMessage :: "'b request \<Rightarrow> string \<Rightarrow> string \<Rightarrow> 'b response" where
  "sendResourceNotFoundMessage req resourceName key =
     Json 404 (''The '' @ resourceName @ ''/'' @ key @ '' does not exist.'') resourceName"

text \<open>\<open>isRecordResource(source)\<close> returns the source when \<open>"adjust" in source\<close> and
  \<open>undefined\<close> otherwise. Its callers only call \<open>target.adjust\<close> on the result, so the
  model returns that member.\<close>

definition isRecordResource ::
  "('v, 'c, 's) resource \<Rightarrow> (string \<Rightarrow> 'c \<Rightarrow> 's \<Rightarrow> 'c promise \<times> 's) option" where
  "isRecordResource source = res_adjust source"

text \<open>\<open>parseBody\<close>: the promise is fulfilled with what the parser returns and
  rejected with what it throws.\<close>

definition parseBody :: "'b request \<Rightarrow> ('b \<Rightarrow> 'v promise) \<Rightarrow> 'v promise" where
  "parseBody request parser = parser (req_body request)"

text \<open>The two decoders of resourcepath.ts.\<close>

definition parseJsonResourceChanges :: "'b request \<Rightarrow> 'c promise" where
  "parseJsonResourceChanges request = Inl (Error ''The parseJsonResourceChanges not implemented'')"

definition parseXmlResourceChanges :: "'b request \<Rightarrow> 'c promise" where
  "parseXmlResourceChanges request = Inl (Error ''The parseXmlResourceChanges not implemented'')"

text \<open>
  \<open>parseResourceChanges(request, resource)\<close> of the router. The promise it returns is
  resolved with \<open>parse(request).then(changes => target.adjust(id, changes))\<close>, so it
  settles as that chain does. The result is the outcome, the store and the store
  operations invoked.
\<close>

definition parseResourceChanges ::
  "'b request \<Rightarrow> ('v, 'c, 's) resource \<Rightarrow> 's \<Rightarrow> 'c promise \<times> 's \<times> ('v, 'c) call list" where
  "parseResourceChanges request resource s =
     (case isRecordResource resource of
        Some adjust \<Rightarrow>
          (if req_content_type request = Some ''application/xml'' then
             (case parseXmlResourceChanges request of
                Inr changes \<Rightarrow>
                  (case adjust (req_id request) changes s of
                     (r, s') \<Rightarrow> (r, s', [AdjustCall (req_id request) changes]))
              | Inl err \<Rightarrow> (Inl err, s, []))
           else if req_content_type request = Some ''application/json'' then
             (case parseJsonResourceChanges request of
                Inr changes \<Rightarrow>
                  (case adjust (req_id request) changes s of
                     (r, s') \<Rightarrow> (r, s', [AdjustCall (req_id request) changes]))
              | Inl err \<Rightarrow> (Inl err, s, []))
           else (Inl TypeError, s, []))
      | None \<Rightarrow> (Inl (Error (''Unsupported patch for '' @ res_name resource)), s, []))"

text \<open>
  The handler of \<open>app.post(path + "/:id", ...)\<close>: the full update. One \<open>catch\<close> takes
  the rejection of the parser, the rejection of \<open>resource.update\<close> and an exception of
  the callback that runs after a fulfilled update alike. That callback first evaluates
  \<^verbatim>\<open>console.log(`Updated ${resource.name}: id=${id}, value: ${body}`)\<close>
  and then sends the status 204. The template converts \<open>req.body\<close> to a string, which
  throws for some objects; \<open>to_string\<close> gives the exception of that conversion, or
  \<open>None\<close> when it returns a string. When it throws, the store is already updated.
\<close>

definition update_handler ::
  "('b \<Rightarrow> error option) \<Rightarrow> ('v, 'c, 's) resource \<Rightarrow> ('b \<Rightarrow> 'v promise) option
     \<Rightarrow> 'b request \<Rightarrow> 's \<Rightarrow> 'b response \<times> 's \<times> ('v, 'c) call list" where
  "update_handler to_string resource parser req s =
     (case parser of
        Some p \<Rightarrow>
          (case parseBody req p of
             Inr result \<Rightarrow>
               (case res_update resource (req_id req) result s of
                  (Inr u, s') \<Rightarrow>
                    (case to_string (req_body req) of
                       None \<Rightarrow> (End 204, s', [UpdateCall (req_id req) result])
                     | Some err \<Rightarrow>
                         (JsonValue 400 (''Invalid '' @ res_name resource @ ''.'')
                            (res_name resource) (req_body req),
                          s', [UpdateCall (req_id req) result]))
                | (Inl err, s') \<Rightarrow>
                    (JsonValue 400 (''Invalid '' @ res_name resource @ ''.'') (res_name resource)
                       (req_body req),
                     s', [UpdateCall (req_id req) result]))
           | Inl err \<Rightarrow>
               (JsonValue 400 (''Invalid '' @ res_name resource @ ''.'') (res_name resource)
                  (req_body req),
                s, []))
      | None \<Rightarrow>
          (Json 405 (''Unsupported '' @ res_name resource @ '' operation.'') (res_name resource),
           s, []))"

text \<open>The handler of \<open>app.patch(path + ":id", ...)\<close>: the partial update.\<close>

definition patch_handler ::
  "('v, 'c, 's) resource \<Rightarrow> 'b request \<Rightarrow> 's \<Rightarrow> 'b response \<times> 's \<times> ('v, 'c) call list" where
  "patch_handler resource req s =
     (case isRecordResource resource of
        Some adjust \<Rightarrow>
          (case parseResourceChanges req resource s of
             (Inr changes, s1, calls1) \<Rightarrow>
               (case adjust (req_id req) changes s1 of
                  (Inr result, s2) \<Rightarrow> (End 204, s2, calls1 @ [AdjustCall (req_id req) changes])
                | (Inl err, s2) \<Rightarrow>
                    (sendResourceNotFoundMessage req (res_name resource) (req_id req),
                     s2, calls1 @ [AdjustCall (req_id req) changes]))
           | (Inl err, s1, calls1) \<Rightarrow>
               (sendInvalidResourceRequestMessage req (res_name resource) (req_method req),
                s1, calls1))
      | None \<Rightarrow>
          (sendUnsupportedResourceMessage req (res_name resource) (req_method req), s, []))"

text \<open>
  The routes \<open>registerResource(app, path, resource, parser)\<close> registers, in the order of
  its calls \<open>app.get\<close>, \<open>app.get\<close>, \<open>app.post\<close>, \<open>app.post\<close>, \<open>app.patch\<close>,
  \<open>app.delete\<close>, each with the route string it passes.
\<close>

datatype http_method = GET | POST | PATCH | PUT | DELETE

definition registerResource_routes :: "string \<Rightarrow> (http_method \<times> string) list" where
  "registerResource_routes path =
     [(GET, path), (GET, path @ ''/:id''), (POST, path), (POST, path @ ''/:id''),
      (PATCH, path @ '':id''), (DELETE, path @ ''/:id'')]"

text \<open>The older \<open>registerResource\<close> of main/resource.ts registers \<open>app.put\<close> in the
  place of \<open>app.patch\<close>, with an empty handler.\<close>

definition registerResource_routes_main :: "string \<Rightarrow> (http_method \<times> string) list" where
  "registerResource_routes_main path =
     [(GET, path), (GET, path @ ''/:id''), (POST, path), (POST, path @ ''/:id''),
      (PUT, path @ '':id''), (DELETE, path @ ''/:id'')]"

section \<open>The sample store (data.ts, sklll.ts, server.ts)\<close>

text \<open>A skill has a name and an optional description. Both come from the members of a
  decoded JSON body, where either may be missing.\<close>

record skill =
  skill_name :: "string option"
  description :: "string option"

definition Skill :: "string option \<Rightarrow> string option \<Rightarrow> skill" where
  "Skill nm desc = \<lparr>skill_name = nm, description = desc\<rparr>"

text \<open>\<open>data.skills\<close> is a \<open>Map\<close>, which keeps its keys in insertion order: an
  association list with distinct keys. \<open>Map.set\<close> replaces the value of a key in place
  and puts a new key last.\<close>

type_synonym skills = "(string \<times> skill) list"

definition data_skills :: skills where
  "data_skills =
     [(''1'', Skill (Some ''Battle'') (Some ''An ability to fight or command.'')),
      (''2'', Skill (Some ''Communication'') (Some ''Communicate with other people''))]"

definition Skills_update :: "string \<Rightarrow> skill \<Rightarrow> skills \<Rightarrow> unit promise \<times> skills" where
  "Skills_update key v skills =
     (if map_of skills key \<noteq> None then (Inr (), AList.update key v skills)
      else (Inl RangeError, skills))"

definition Skills :: "(skill, 'c, skills) resource" where
  "Skills = \<lparr>res_name = ''skill'', res_update = Skills_update, res_adjust = None\<rparr>"

text \<open>
  The body a request carries after \<open>express.json()\<close>, as far as the parser of
  server.ts and the handlers look at it: an array, or an object with its \<open>name\<close> and
  \<open>description\<close> members. The flag of an object says whether it has a member named
  \<open>toString\<close>; the flag of an array says whether an object with such a member is among
  its elements, at any depth.
\<close>

datatype json_body = JArray bool | JObject "string option" "string option" bool

fun skill_parser :: "json_body \<Rightarrow> skill promise" where
  "skill_parser (JArray t) = Inl SyntaxError"
| "skill_parser (JObject nm desc t) = Inr (Skill nm desc)"

text \<open>
  The conversion of such a body to a string, as a template literal does it. A member
  \<open>toString\<close> of a decoded object is not a function, so it hides the inherited method;
  \<open>valueOf\<close> gives no primitive value either, and the conversion throws a
  \<open>TypeError\<close>. An array joins the strings of its elements and throws when the
  conversion of an element does.
\<close>

fun json_body_to_string :: "json_body \<Rightarrow> error option" where
  "json_body_to_string (JArray t) = (if t then Some TypeError else None)"
| "json_body_to_string (JObject nm desc t) = (if t then Some TypeError else None)"

section \<open>Change descriptors and patch application\<close>

text \<open>
  The four kinds of \<open>ResourceChange\<close> of resourcepath.ts, each with the members its
  interface declares: \<open>resource\<close> and \<open>value\<close> for \<open>add\<close> and \<open>update\<close>,
  \<open>resource\<close> for \<open>remove\<close>, and \<open>resource\<close> (a string), the optional \<open>value\<close> and
  \<open>newResource\<close> for \<open>move\<close>.
\<close>

datatype 'x change =
    ResourceAdded path_arg 'x
  | ResourceRemoved path_arg
  | ResourceChanged path_arg 'x
  | ResourceMoved string "'x option" path_arg

fun change_resource :: "'x change \<Rightarrow> path_arg" where
  "change_resource (ResourceAdded r x) = r"
| "change_resource (ResourceRemoved r) = r"
| "change_resource (ResourceChanged r x) = r"
| "change_resource (ResourceMoved r x nr) = Str r"

text \<open>The \<open>value\<close> member; \<open>None\<close> is \<open>undefined\<close>, which "means the value is
  removed".\<close>

fun change_value :: "'x change \<Rightarrow> 'x option" where
  "change_value (ResourceAdded r x) = Some x"
| "change_value (ResourceRemoved r) = None"
| "change_value (ResourceChanged r x) = Some x"
| "change_value (ResourceMoved r x nr) = x"

text \<open>
  The members a \<open>RecordResource\<close> declares besides \<open>adjust\<close>: \<open>properties()\<close>,
  \<open>validValue(source, property, value)\<close> and \<open>changeValue(source, property, value)\<close>.
  The interface does not say which property a \<open>resource\<close> member addresses, nor how a
  property is moved; both are left to the resource (\<open>property_of\<close>, \<open>moveValue\<close>).
\<close>

record ('t, 'x) record_ops =
  properties :: "string list"
  validValue :: "'t \<Rightarrow> string \<Rightarrow> 'x option \<Rightarrow> bool"
  changeValue :: "'t \<Rightarrow> string \<Rightarrow> 'x option \<Rightarrow> 't"
  property_of :: "path_arg \<Rightarrow> string"
  moveValue :: "'t \<Rightarrow> string \<Rightarrow> path_arg \<Rightarrow> 't"

text \<open>
  Modelled from the spec: the validation of one change descriptor. No implementation of
  \<open>RecordResource\<close> is in the repository. The spec: "validate the addressed property is
  recognized and the proposed value is acceptable".
\<close>

definition descriptor_valid :: "('t, 'x) record_ops \<Rightarrow> 't \<Rightarrow> 'x change \<Rightarrow> bool" where
  "descriptor_valid ops source ch =
     (property_of ops (change_resource ch) \<in> set (properties ops) \<and>
      validValue ops source (property_of ops (change_resource ch)) (change_value ch))"

text \<open>
  Modelled from the spec: the effect of one change descriptor on a value. The spec:
  "\<open>move\<close> descriptors reassign the logical location (key or sub-path) rather than the
  value payload; \<open>remove\<close> clears a property to its absent state; \<open>update\<close>/\<open>add\<close> set
  a new value".
\<close>

fun apply_change :: "('t, 'x) record_ops \<Rightarrow> 't \<Rightarrow> 'x change \<Rightarrow> 't" where
  "apply_change ops source (ResourceMoved r x nr) = moveValue ops source r nr"
| "apply_change ops source ch =
     changeValue ops source (property_of ops (change_resource ch)) (change_value ch)"

text \<open>
  Modelled from the spec: \<open>adjust(key, values)\<close> of a record resource, which the
  repository only declares. The spec: it "fails with a not-found condition if the target
  key does not exist prior to applying any change"; every descriptor is validated "before
  mutating", and "if any descriptor in the batch is invalid, no partial mutation is
  observably applied \<dots> the whole batch fails with a syntax condition"; otherwise the
  descriptors are applied, in their order, "to the single current value at that key". The
  store is an association list from keys to values, as the sample store is.
\<close>

definition adjust ::
  "('t, 'x) record_ops \<Rightarrow> string \<Rightarrow> 'x change list \<Rightarrow> (string \<times> 't) list
     \<Rightarrow> unit promise \<times> (string \<times> 't) list" where
  "adjust ops key values store =
     (case map_of store key of
        None \<Rightarrow> (Inl RangeError, store)
      | Some source \<Rightarrow>
          if list_all (descriptor_valid ops source) values
          then (Inr (), AList.update key (foldl (apply_change ops) source values) store)
          else (Inl SyntaxError, store))"

text \<open>The record of the spec's example: the properties \<open>a\<close> and \<open>b\<close>, which take
  numbers only and can be removed.\<close>

datatype field_value = Num int | Text string

fun acceptable :: "field_value option \<Rightarrow> bool" where
  "acceptable None = True"
| "acceptable (Some (Num n)) = True"
| "acceptable (Some (Text t)) = False"

fun leaf_name :: "path_arg \<Rightarrow> string" where
  "leaf_name (Str s) = s"
| "leaf_name (Chain (PNode n p a r)) = n"
| "leaf_name (Chain t) = []"

definition example_ops :: "((string \<times> field_value) list, field_value) record_ops" where
  "example_ops =
     \<lparr>properties = [''a'', ''b''],
      validValue = (\<lambda>source property v. acceptable v),
      changeValue = (\<lambda>source property v.
         case v of Some x \<Rightarrow> AList.update property x source
                 | None \<Rightarrow> AList.delete property source),
      property_of = leaf_name,
      moveValue = (\<lambda>source r nr.
         case map_of source r of
           Some x \<Rightarrow> AList.update (leaf_name nr) x (AList.delete r source)
         | None \<Rightarrow> source)\<rparr>"

section \<open>Properties of the path functions\<close>

lemma terminal_cases: "terminal p = PNull \<or> terminal p = PUndefined"
  by (induction p) auto

lemma collect_eq: "collect p acc = (names p @ acc, terminal p)"
  by (induction p arbitrary: acc) auto

text \<open>The parameter \<open>current\<close> has no influence on the result.\<close>

lemma resolvePath_current_unused: "resolvePath current pth = resolvePath current' pth"
  by (simp add: resolvePath_def)

lemma resolvePath_relative_chain:
  "terminal p = PUndefined \<Longrightarrow> resolvePath base (Chain p) = replay (names p) PUndefined"
  by (simp add: resolvePath_def collect_eq)

lemma ResourcePath_plain:
  "segment \<notin> set ['''', ''.'', ''..''] \<Longrightarrow> ResourcePath segment par = Inr (new_node segment par)"
  by (auto simp: ResourcePath_def)

text \<open>After its loop \<open>isAbsolute\<close> holds \<open>null\<close>, \<open>undefined\<close> or a node without the
  \<open>absolute\<close> flag, so it never returns \<open>true\<close>.\<close>

lemma isAbsolute_loop_cases:
  "isAbsolute_loop p = PNull \<or> isAbsolute_loop p = PUndefined \<or>
   (\<exists>n q r. isAbsolute_loop p = PNode n q None r)"
  by (induction p rule: isAbsolute_loop.induct) auto

lemma isAbsolute_never_true: "isAbsolute p \<noteq> Inr True"
  using isAbsolute_loop_cases [of p] by (auto simp: isAbsolute_def)

text \<open>The invariant in the form the proofs use: with the end of a chain being \<open>null\<close>
  or \<open>undefined\<close>, the two flags fix each other.\<close>

lemma path_inv_node:
  "path_inv (PNode n p a r) =
     (n \<noteq> '''' \<and> a = Some (terminal p = PNull) \<and> r = Some (terminal p = PUndefined) \<and>
      path_inv p)"
proof (cases a; cases r)
  fix x y assume "a = Some x" "r = Some y"
  then show ?thesis using terminal_cases [of p] by (cases x; cases y) auto
qed simp_all

lemma isAbsolute_loop_inv: "path_inv p \<Longrightarrow> isAbsolute_loop p = terminal p"
  by (induction p) (simp_all add: path_inv_node del: path_inv.simps(1))

lemma isRelative_loop_inv: "path_inv p \<Longrightarrow> isRelative_loop p = terminal p"
  by (induction p) (simp_all add: path_inv_node del: path_inv.simps(1))

text \<open>On every chain that satisfies the invariant, both tests walk to the end of the
  chain and throw there.\<close>

lemma isAbsolute_inv: "path_inv p \<Longrightarrow> isAbsolute p = Inl TypeError"
  using terminal_cases [of p] by (auto simp: isAbsolute_def isAbsolute_loop_inv)

lemma isRelative_inv: "path_inv p \<Longrightarrow> isRelative p = Inl TypeError"
  using terminal_cases [of p] by (auto simp: isRelative_def isRelative_loop_inv)

lemma new_node_inv: "path_inv q \<Longrightarrow> nm \<noteq> '''' \<Longrightarrow> path_inv (new_node nm q)"
  by (cases q) (simp_all add: new_node_def path_inv_node del: path_inv.simps(1))

lemma ResourcePath_inv:
  "path_inv q \<Longrightarrow> ResourcePath nm q = Inr c \<Longrightarrow> path_inv c \<and> c = new_node nm q"
  by (auto simp: ResourcePath_def isAbsolute_inv new_node_inv
      simp del: path_inv.simps(1) split: if_splits)

text \<open>With \<open>.\<close> or \<open>..\<close> as the name the factory never throws a \<open>SyntaxError\<close>,
  and on a parent that satisfies the invariant it always ends with the \<open>TypeError\<close>.\<close>

lemma ResourcePath_dot_no_SyntaxError:
  "nm \<in> set [''.'', ''..''] \<Longrightarrow> ResourcePath nm par \<noteq> Inl SyntaxError"
proof -
  assume nm: "nm \<in> set [''.'', ''..'']"
  consider "isAbsolute par = Inl TypeError" | "isAbsolute par = Inr False"
    using isAbsolute_loop_cases [of par] by (auto simp: isAbsolute_def)
  then show ?thesis
    using nm by cases (auto simp: ResourcePath_def)
qed

lemma ResourcePath_dot_inv:
  "path_inv par \<Longrightarrow> nm \<in> set [''.'', ''..''] \<Longrightarrow> ResourcePath nm par = Inl TypeError"
  by (auto simp: ResourcePath_def isAbsolute_inv)

lemma factory_built_inv: "factory_built p \<Longrightarrow> path_inv p"
proof (induction p)
  case (PNode n p a r)
  then have "path_inv p" and "ResourcePath n p = Inr (PNode n p a r)" by simp_all
  then show ?case using ResourcePath_inv by blast
qed simp_all

text \<open>
  Claim C1, as stated, fails: a string is not split into segments, and the result does
  not extend the base. Resolving the string \<open>x/../z\<close> against the absolute path \<open>/a\<close>
  gives the relative one-node chain whose name is the whole string, not what the replay
  of the segments \<open>x\<close>, \<open>..\<close>, \<open>z\<close> from \<open>/a\<close> gives, the path \<open>/a/z\<close>.
\<close>

theorem resolvePath_string_not_split:
  "resolvePath (PNode ''a'' PNull (Some True) (Some False)) (Str ''x/../z'')
     = Inr (PNode ''x/../z'' PUndefined (Some False) (Some True))
   \<and> replay [''x'', ''..'', ''z''] (PNode ''a'' PNull (Some True) (Some False))
     = Inr (PNode ''z'' (PNode ''a'' PNull (Some True) (Some False)) (Some True) (Some False))
   \<and> resolvePath (PNode ''a'' PNull (Some True) (Some False)) (Str ''x/../z'')
     \<noteq> replay [''x'', ''..'', ''z''] (PNode ''a'' PNull (Some True) (Some False))"
  by (simp add: resolvePath_def ResourcePath_def new_node_def)

text \<open>
  Claim C1, amended: for every base path and every chain that ends at \<open>undefined\<close>,
  \<open>resolvePath\<close> replays the names of the chain, root first, from a starting cursor:
  \<open>.\<close> leaves the cursor unchanged, \<open>..\<close> moves the cursor to its parent and fails
  with a \<open>SyntaxError\<close> when the cursor is \<open>null\<close> or \<open>undefined\<close>, an empty name fails
  with a \<open>SyntaxError\<close>, and every other name appends a new node with that name to the
  cursor; the result is the final cursor. A string other than the empty string, \<open>.\<close>
  and \<open>..\<close> is resolved as the one-node relative chain named by the whole string.
\<close>

theorem resolvePath_relative_replay:
  "(terminal p = PUndefined \<longrightarrow>
      (\<exists>start. resolvePath base (Chain p) = replay (names p) start))
   \<and> (s \<notin> set ['''', ''.'', ''..''] \<longrightarrow>
        resolvePath base (Str s) = resolvePath base (Chain (new_node s PUndefined)))
   \<and> replay [] cursor = Inr cursor
   \<and> replay (''.'' # rest) cursor = replay rest cursor
   \<and> replay (''..'' # rest) cursor =
        (if nullish cursor then Inl SyntaxError else replay rest (parent cursor))
   \<and> replay ('''' # rest) cursor = Inl SyntaxError
   \<and> (segment \<notin> set ['''', ''.'', ''..''] \<longrightarrow>
        replay (segment # rest) cursor = replay rest (new_node segment cursor)
        \<and> name (new_node segment cursor) = segment
        \<and> parent (new_node segment cursor) = cursor)"
proof -
  have 1: "terminal p = PUndefined \<longrightarrow>
      (\<exists>start. resolvePath base (Chain p) = replay (names p) start)"
    using resolvePath_relative_chain by blast
  have 2: "s \<notin> set ['''', ''.'', ''..''] \<longrightarrow>
      resolvePath base (Str s) = resolvePath base (Chain (new_node s PUndefined))"
    by (simp add: resolvePath_def ResourcePath_plain)
  have 3: "segment \<notin> set ['''', ''.'', ''..''] \<longrightarrow>
      replay (segment # rest) cursor = replay rest (new_node segment cursor)"
    by (simp add: ResourcePath_plain)
  have 4: "name (new_node segment cursor) = segment \<and> parent (new_node segment cursor) = cursor"
    by (simp add: new_node_def)
  show ?thesis using 1 2 3 4 by simp
qed

text \<open>The amended claim C1 at the chain \<open>x/../z\<close> and at the string \<open>b\<close>.\<close>

theorem resolvePath_relative_replay_witness:
  "terminal (PNode ''z'' (PNode ''..'' (PNode ''x'' PUndefined None None) None None) None None)
     = PUndefined
   \<and> ''b'' \<notin> set ['''', ''.'', ''..'']
   \<and> (\<exists>start. resolvePath PNull
          (Chain (PNode ''z'' (PNode ''..'' (PNode ''x'' PUndefined None None) None None) None None))
        = replay [''x'', ''..'', ''z''] start)
   \<and> resolvePath PNull (Str ''b'')
       = resolvePath PNull (Chain (PNode ''b'' PUndefined (Some False) (Some True)))
   \<and> replay [''b''] PNull = replay [] (PNode ''b'' PNull (Some True) (Some False))"
  using resolvePath_relative_replay
    [of "PNode ''z'' (PNode ''..'' (PNode ''x'' PUndefined None None) None None) None None"
        PNull "''b''" PNull "[]" "''b''"]
  by (simp add: new_node_def)




text \<open>
  Claim C3 at its failing inputs: with the relative path \<open>a\<close>, the absolute path \<open>/a\<close>
  or \<open>null\<close> as the parent, the factory called with \<open>.\<close> or \<open>..\<close> ends with the
  \<open>TypeError\<close> of \<open>isAbsolute\<close>; it neither returns the parent nor throws a
  \<open>SyntaxError\<close>.
\<close>

theorem ResourcePath_dot_TypeError:
  "ResourcePath ''a'' PUndefined = Inr (PNode ''a'' PUndefined (Some False) (Some True))
   \<and> ResourcePath ''.'' (PNode ''a'' PUndefined (Some False) (Some True)) = Inl TypeError
   \<and> ResourcePath ''..'' (PNode ''a'' PUndefined (Some False) (Some True)) = Inl TypeError
   \<and> ResourcePath ''a'' PNull = Inr (PNode ''a'' PNull (Some True) (Some False))
   \<and> ResourcePath ''.'' (PNode ''a'' PNull (Some True) (Some False)) = Inl TypeError
   \<and> ResourcePath ''..'' (PNode ''a'' PNull (Some True) (Some False)) = Inl TypeError
   \<and> ResourcePath ''.'' PNull = Inl TypeError
   \<and> ResourcePath ''..'' PNull = Inl TypeError"
  by (simp add: ResourcePath_def new_node_def isAbsolute_def)

text \<open>
  Claim C4 at its failing inputs: \<open>isAbsolute\<close> and \<open>isRelative\<close> throw a
  \<open>TypeError\<close> for \<open>null\<close>, for \<open>undefined\<close> and for the paths the factory makes of
  the name \<open>a\<close> with the parent \<open>null\<close> and with the parent \<open>undefined\<close>.
\<close>

theorem isAbsolute_TypeError:
  "isAbsolute PNull = Inl TypeError
   \<and> isAbsolute PUndefined = Inl TypeError
   \<and> isRelative PNull = Inl TypeError
   \<and> isRelative PUndefined = Inl TypeError
   \<and> ResourcePath ''a'' PNull = Inr (PNode ''a'' PNull (Some True) (Some False))
   \<and> isAbsolute (PNode ''a'' PNull (Some True) (Some False)) = Inl TypeError
   \<and> ResourcePath ''a'' PUndefined = Inr (PNode ''a'' PUndefined (Some False) (Some True))
   \<and> isAbsolute (PNode ''a'' PUndefined (Some False) (Some True)) = Inl TypeError
   \<and> isRelative (PNode ''a'' PUndefined (Some False) (Some True)) = Inl TypeError"
  by (simp add: ResourcePath_def new_node_def isAbsolute_def isRelative_def)

text \<open>
  Claim C10: every chain built solely from the factory with names other than \<open>.\<close> and
  \<open>..\<close> satisfies the invariant at every node, and a node the factory appends to a
  chain that satisfies the invariant gives a chain that satisfies it again.
\<close>

theorem factory_invariant:
  "(factory_built p \<longrightarrow> path_inv p)
   \<and> (path_inv q \<and> ResourcePath nm q = Inr c \<longrightarrow>
        path_inv c \<and> name c = nm \<and> parent c = q)"
  using factory_built_inv [of p] ResourcePath_inv [of q nm c] by (auto simp: new_node_def)

text \<open>Claim C10 at the absolute path \<open>/a/b\<close> and at \<open>c\<close> appended to the relative
  path \<open>a\<close>.\<close>

theorem factory_invariant_witness:
  "factory_built (PNode ''b'' (PNode ''a'' PNull (Some True) (Some False)) (Some True) (Some False))
   \<and> path_inv (PNode ''b'' (PNode ''a'' PNull (Some True) (Some False)) (Some True) (Some False))
   \<and> path_inv (PNode ''a'' PUndefined (Some False) (Some True))
   \<and> ResourcePath ''c'' (PNode ''a'' PUndefined (Some False) (Some True))
        = Inr (PNode ''c'' (PNode ''a'' PUndefined (Some False) (Some True)) (Some False) (Some True))
   \<and> path_inv (PNode ''c'' (PNode ''a'' PUndefined (Some False) (Some True)) (Some False) (Some True))"
  using factory_invariant
    [of "PNode ''b'' (PNode ''a'' PNull (Some True) (Some False)) (Some True) (Some False)"
        "PNode ''a'' PUndefined (Some False) (Some True)" "''c''"
        "PNode ''c'' (PNode ''a'' PUndefined (Some False) (Some True)) (Some False) (Some True)"]
  by (simp add: ResourcePath_def new_node_def)

section \<open>Properties of the router and of patch application\<close>

text \<open>
  When the body has a member named \<open>toString\<close>, the log line of the update handler
  throws after the store has taken the update, and the handler answers with the status
  400. Here the key 1 of the sample store is updated.
\<close>

lemma update_handler_log_line_throws:
  "update_handler json_body_to_string (Skills :: (skill, unit, skills) resource)
      (Some skill_parser)
      \<lparr>req_id = ''1'', req_content_type = Some ''application/json'',
       req_body = JObject (Some ''Pilot'') None True, req_method = ''POST''\<rparr>
      data_skills
   = (JsonValue 400 ''Invalid skill.'' ''skill'' (JObject (Some ''Pilot'') None True),
      [(''1'', Skill (Some ''Pilot'') None),
       (''2'', Skill (Some ''Communication'') (Some ''Communicate with other people''))],
      [UpdateCall ''1'' (Skill (Some ''Pilot'') None)])"
  by (simp add: update_handler_def parseBody_def Skills_def Skills_update_def data_skills_def)

text \<open>
  Claim C5: \<open>adjust\<close> is all-or-nothing. With a missing key it is rejected with a
  \<open>RangeError\<close>; with a descriptor that is not valid for the stored value it is rejected
  with a \<open>SyntaxError\<close>; whenever it is rejected the store is the one it was called
  with; and when it is fulfilled every descriptor was valid and the store holds, at the
  key, the stored value with the descriptors applied in their order.
\<close>

theorem adjust_all_or_nothing:
  "(map_of store key = None \<longrightarrow> adjust ops key values store = (Inl RangeError, store))
   \<and> (map_of store key = Some source \<and> \<not> list_all (descriptor_valid ops source) values
        \<longrightarrow> adjust ops key values store = (Inl SyntaxError, store))
   \<and> (fst (adjust ops key values store) \<noteq> Inr () \<longrightarrow>
        snd (adjust ops key values store) = store)
   \<and> (fst (adjust ops key values store) = Inr () \<longrightarrow>
        (\<exists>v. map_of store key = Some v \<and> list_all (descriptor_valid ops v) values
           \<and> snd (adjust ops key values store)
               = AList.update key (foldl (apply_change ops) v values) store))"
  by (auto simp: adjust_def split: option.splits)

text \<open>Claim C5 at the example of the spec: the stored record \<open>{a: 1, b: 2}\<close> and the
  batch that updates \<open>a\<close> to 5 and \<open>b\<close> to a text; then at a missing key; then at a
  batch of two valid updates.\<close>

theorem adjust_all_or_nothing_witness:
  "map_of [(''k'', [(''a'', Num 1), (''b'', Num 2)])] ''k'' = Some [(''a'', Num 1), (''b'', Num 2)]
   \<and> \<not> list_all (descriptor_valid example_ops [(''a'', Num 1), (''b'', Num 2)])
         [ResourceChanged (Str ''a'') (Num 5), ResourceChanged (Str ''b'') (Text ''invalid'')]
   \<and> adjust example_ops ''k''
         [ResourceChanged (Str ''a'') (Num 5), ResourceChanged (Str ''b'') (Text ''invalid'')]
         [(''k'', [(''a'', Num 1), (''b'', Num 2)])]
       = (Inl SyntaxError, [(''k'', [(''a'', Num 1), (''b'', Num 2)])])
   \<and> map_of [(''k'', [(''a'', Num 1), (''b'', Num 2)])] ''q'' = None
   \<and> adjust example_ops ''q'' [ResourceChanged (Str ''a'') (Num 5)]
         [(''k'', [(''a'', Num 1), (''b'', Num 2)])]
       = (Inl RangeError, [(''k'', [(''a'', Num 1), (''b'', Num 2)])])
   \<and> adjust example_ops ''k''
         [ResourceChanged (Str ''a'') (Num 5), ResourceChanged (Str ''b'') (Num 7)]
         [(''k'', [(''a'', Num 1), (''b'', Num 2)])]
       = (Inr (), [(''k'', [(''a'', Num 5), (''b'', Num 7)])])"
  using adjust_all_or_nothing
    [of "[(''k'', [(''a'', Num 1), (''b'', Num 2)])]" "''k''" example_ops
        "[ResourceChanged (Str ''a'') (Num 5), ResourceChanged (Str ''b'') (Text ''invalid'')]"
        "[(''a'', Num 1), (''b'', Num 2)]"]
  by (simp add: adjust_def descriptor_valid_def example_ops_def)

text \<open>
  Claim C6, as stated, fails: when the key is missing, the update handler answers with
  the status 400 and the message of an invalid value, not with the not-found outcome.
  Here the sample store has the keys 1 and 2 and the request updates the key 3.
\<close>

theorem update_not_found_is_bad_request:
  "update_handler json_body_to_string (Skills :: (skill, unit, skills) resource)
      (Some skill_parser)
      \<lparr>req_id = ''3'', req_content_type = Some ''application/json'',
       req_body = JObject (Some ''Pilot'') None False, req_method = ''POST''\<rparr>
      data_skills
   = (JsonValue 400 ''Invalid skill.'' ''skill'' (JObject (Some ''Pilot'') None False),
      data_skills,
      [UpdateCall ''3'' (Skill (Some ''Pilot'') None)])
   \<and> Skills_update ''3'' (Skill (Some ''Pilot'') None) data_skills
     = (Inl RangeError, data_skills)
   \<and> JsonValue 400 ''Invalid skill.'' ''skill'' (JObject (Some ''Pilot'') None False)
     \<noteq> sendResourceNotFoundMessage
         \<lparr>req_id = ''3'', req_content_type = Some ''application/json'',
          req_body = JObject (Some ''Pilot'') None False, req_method = ''POST''\<rparr>
         ''skill'' ''3''"
  by (simp add: update_handler_def parseBody_def Skills_def Skills_update_def data_skills_def
      sendResourceNotFoundMessage_def)

text \<open>
  Claim C6, amended: with a parser that decodes the body, the update handler answers
  with the status 400, the message \<open>Invalid <name>.\<close>, the resource name and the body
  when \<open>update\<close> is rejected, whatever the reason, the missing key included; and with the
  empty status 204 when \<open>update\<close> is fulfilled and the conversion of the body to a string
  for the log line returns. In both cases \<open>update\<close> is the one store operation invoked.
\<close>

theorem update_handler_outcome:
  "(parseBody req p = Inr v \<and> res_update resource (req_id req) v s = (Inl err, s')
      \<longrightarrow>
      update_handler to_string resource (Some p) req s =
        (JsonValue 400 (''Invalid '' @ res_name resource @ ''.'') (res_name resource)
           (req_body req),
         s', [UpdateCall (req_id req) v]))
   \<and> (parseBody req p = Inr v \<and> res_update resource (req_id req) v s = (Inr u, s')
        \<and> to_string (req_body req) = None \<longrightarrow>
      update_handler to_string resource (Some p) req s =
        (End 204, s', [UpdateCall (req_id req) v]))"
  by (simp add: update_handler_def)

text \<open>The amended claim C6 at an update of the missing key 3 and at an update of the
  key 1 of the sample store.\<close>

theorem update_handler_outcome_witness:
  "parseBody \<lparr>req_id = ''3'', req_content_type = None,
       req_body = JObject (Some ''Pilot'') None False, req_method = ''POST''\<rparr> skill_parser
     = Inr (Skill (Some ''Pilot'') None)
   \<and> res_update (Skills :: (skill, unit, skills) resource) ''3''
       (Skill (Some ''Pilot'') None) data_skills
     = (Inl RangeError, data_skills)
   \<and> update_handler json_body_to_string (Skills :: (skill, unit, skills) resource)
       (Some skill_parser)
       \<lparr>req_id = ''3'', req_content_type = None,
        req_body = JObject (Some ''Pilot'') None False, req_method = ''POST''\<rparr> data_skills
     = (JsonValue 400 ''Invalid skill.'' ''skill'' (JObject (Some ''Pilot'') None False),
        data_skills, [UpdateCall ''3'' (Skill (Some ''Pilot'') None)])
   \<and> parseBody \<lparr>req_id = ''1'', req_content_type = None,
       req_body = JObject (Some ''Pilot'') None False, req_method = ''POST''\<rparr> skill_parser
     = Inr (Skill (Some ''Pilot'') None)
   \<and> res_update (Skills :: (skill, unit, skills) resource) ''1''
       (Skill (Some ''Pilot'') None) data_skills
     = (Inr (),
        [(''1'', Skill (Some ''Pilot'') None),
         (''2'', Skill (Some ''Communication'') (Some ''Communicate with other people''))])
   \<and> json_body_to_string (JObject (Some ''Pilot'') None False) = None
   \<and> update_handler json_body_to_string (Skills :: (skill, unit, skills) resource)
       (Some skill_parser)
       \<lparr>req_id = ''1'', req_content_type = None,
        req_body = JObject (Some ''Pilot'') None False, req_method = ''POST''\<rparr> data_skills
     = (End 204,
        [(''1'', Skill (Some ''Pilot'') None),
         (''2'', Skill (Some ''Communication'') (Some ''Communicate with other people''))],
        [UpdateCall ''1'' (Skill (Some ''Pilot'') None)])"
  using update_handler_outcome
    [where req = "\<lparr>req_id = ''3'', req_content_type = None,
        req_body = JObject (Some ''Pilot'') None False, req_method = ''POST''\<rparr>"
       and p = skill_parser and v = "Skill (Some ''Pilot'') None"
       and resource = "Skills :: (skill, unit, skills) resource" and s = data_skills
       and err = RangeError and s' = data_skills and to_string = json_body_to_string
       and u = "()"]
    update_handler_outcome
    [where req = "\<lparr>req_id = ''1'', req_content_type = None,
        req_body = JObject (Some ''Pilot'') None False, req_method = ''POST''\<rparr>"
       and p = skill_parser and v = "Skill (Some ''Pilot'') None"
       and resource = "Skills :: (skill, unit, skills) resource" and s = data_skills
       and err = RangeError
       and s' = "[(''1'', Skill (Some ''Pilot'') None),
         (''2'', Skill (Some ''Communication'') (Some ''Communicate with other people''))]"
       and to_string = json_body_to_string and u = "()"]
  by (simp add: parseBody_def Skills_def Skills_update_def data_skills_def)

text \<open>
  Claim C7 at its failing input: for the base path \<open>/skills\<close> the partial update is
  registered at \<open>/skills:id\<close>, without the separator all other routes of a key have;
  the older router does the same with its \<open>PUT\<close> route.
\<close>

theorem patch_route_has_no_separator:
  "registerResource_routes ''/skills'' =
     [(GET, ''/skills''), (GET, ''/skills/:id''), (POST, ''/skills''), (POST, ''/skills/:id''),
      (PATCH, ''/skills:id''), (DELETE, ''/skills/:id'')]
   \<and> registerResource_routes_main ''/skills'' =
     [(GET, ''/skills''), (GET, ''/skills/:id''), (POST, ''/skills''), (POST, ''/skills/:id''),
      (PUT, ''/skills:id''), (DELETE, ''/skills/:id'')]"
  by (simp add: registerResource_routes_def registerResource_routes_main_def)

text \<open>
  Claim C8: for a resource without the \<open>adjust\<close> member, the patch handler answers
  with the status 405 and invokes no store operation; the store is unchanged.
\<close>

theorem patch_without_adjust:
  "res_adjust resource = None \<Longrightarrow>
   patch_handler resource req s =
     (Json 405 (''The '' @ res_name resource @ '' does not support '' @ req_method req)
        (res_name resource), s, [])"
  by (simp add: patch_handler_def isRecordResource_def sendUnsupportedResourceMessage_def)

text \<open>Claim C8 at the sample store, which has no \<open>adjust\<close> member.\<close>

theorem patch_without_adjust_witness:
  "res_adjust Skills = None
   \<and> patch_handler Skills
        \<lparr>req_id = ''1'', req_content_type = Some ''application/json'',
         req_body = JObject (Some ''Pilot'') None False, req_method = ''PATCH''\<rparr> data_skills
      = (Json 405 ''The skill does not support PATCH'' ''skill'', data_skills, [])"
  using patch_without_adjust
    [of Skills "\<lparr>req_id = ''1'', req_content_type = Some ''application/json'',
         req_body = JObject (Some ''Pilot'') None False, req_method = ''PATCH''\<rparr>" data_skills]
  by (simp add: Skills_def)

text \<open>
  Claim C9: both decoders return a promise rejected with a "not implemented" \<open>Error\<close>;
  so for a resource with the \<open>adjust\<close> member and a request whose content type is
  \<open>application/json\<close> or \<open>application/xml\<close>, the patch handler answers with the status
  400 and \<open>adjust\<close> is not invoked.
\<close>

theorem patch_never_decodes:
  "(parseJsonResourceChanges req :: 'c promise)
      = Inl (Error ''The parseJsonResourceChanges not implemented'')
   \<and> (parseXmlResourceChanges req :: 'c promise)
      = Inl (Error ''The parseXmlResourceChanges not implemented'')
   \<and> (res_adjust (resource :: ('v, 'c, 's) resource) = Some adj
        \<and> (req_content_type req = Some ''application/json''
             \<or> req_content_type req = Some ''application/xml'')
      \<longrightarrow> patch_handler resource req s =
            (Json 400 ''An invalid request.'' (res_name resource), s, []))"
  by (auto simp: patch_handler_def parseResourceChanges_def isRecordResource_def
      parseJsonResourceChanges_def parseXmlResourceChanges_def
      sendInvalidResourceRequestMessage_def)

text \<open>Claim C9 at the sample store extended with an \<open>adjust\<close> member that is always
  fulfilled, and a JSON request.\<close>

theorem patch_never_decodes_witness:
  "res_adjust (Skills\<lparr>res_adjust := Some (\<lambda>key (changes :: unit) s. (Inr changes, s))\<rparr>)
      = Some (\<lambda>key (changes :: unit) s. (Inr changes, s))
   \<and> req_content_type \<lparr>req_id = ''1'', req_content_type = Some ''application/json'',
         req_body = JObject (Some ''Pilot'') None False, req_method = ''PATCH''\<rparr>
      = Some ''application/json''
   \<and> patch_handler (Skills\<lparr>res_adjust := Some (\<lambda>key (changes :: unit) s. (Inr changes, s))\<rparr>)
        \<lparr>req_id = ''1'', req_content_type = Some ''application/json'',
         req_body = JObject (Some ''Pilot'') None False, req_method = ''PATCH''\<rparr> data_skills
      = (Json 400 ''An invalid request.'' ''skill'', data_skills, [])"
  using patch_never_decodes
    [of "\<lparr>req_id = ''1'', req_content_type = Some ''application/json'',
         req_body = JObject (Some ''Pilot'') None False, req_method = ''PATCH''\<rparr>"
        "Skills\<lparr>res_adjust := Some (\<lambda>key (changes :: unit) s. (Inr changes, s))\<rparr>"
        "\<lambda>key (changes :: unit) s. (Inr changes, s)"
        data_skills]
  by (simp add: Skills_def)

end
